theory Spec2Isabelle
  imports Complex_Main
begin

section \<open>Tokens\<close>

text \<open>
  A tokenized line is a Python list whose elements are \<open>int\<close>, \<open>float\<close> or \<open>str\<close>
  objects. Python integers are unbounded (\<open>int\<close>). A Python float is modelled by the
  exact value of the decimal text it was read from, together with the three non-finite
  floats; rounding to the nearest double and overflow are not modelled.
\<close>

datatype pyfloat = Finite real | PosInf | NegInf | NaN

datatype token = TInt int | TFloat pyfloat | TText string

datatype error = ValueError | AssertionError | TypeError | IndexError

text \<open>\<open>isinstance(x, basestring)\<close>.\<close>

fun is_text :: "token \<Rightarrow> bool" where
  "is_text (TText s) = True"
| "is_text (TInt i) = False"
| "is_text (TFloat f) = False"

text \<open>
  Python's \<open>==\<close> on tokens: numbers compare by value across \<open>int\<close> and \<open>float\<close>,
  not-a-number equals nothing (itself included), text equals only the same text.
\<close>

fun py_eq :: "token \<Rightarrow> token \<Rightarrow> bool" where
  "py_eq (TInt a) (TInt b) = (a = b)"
| "py_eq (TInt a) (TFloat (Finite r)) = (of_int a = r)"
| "py_eq (TFloat (Finite r)) (TInt b) = (r = of_int b)"
| "py_eq (TFloat NaN) (TFloat y) = False"
| "py_eq (TFloat x) (TFloat y) = (x = y)"
| "py_eq (TText s) (TText t) = (s = t)"
| "py_eq x y = False"

section \<open>The tokenizer\<close>

subsection \<open>Shell-style word splitting\<close>

text \<open>
  \<open>shlex.split(line)\<close> of the Python standard library: the POSIX-mode lexer with
  \<open>whitespace_split\<close> set and no comment characters. The lexer's \<open>state\<close> attribute is
  \<open>' '\<close> (between words), \<open>'a'\<close> (inside a word), a quote character (inside that
  quotation) or the escape character (just after a backslash); \<open>escapedstate\<close> is the
  state a backslash returns to.
\<close>

datatype lex_state = Blank | Word | Quoted char | Escaped

definition whitespace :: "char set" where
  "whitespace = {CHR '' '', CHR 0x09, CHR 0x0D, CHR 0x0A}"

definition quotes :: "char set" where
  "quotes = {CHR 0x27, CHR 0x22}"

definition escape :: "char set" where
  "escape = {CHR 0x5C}"

definition escapedquotes :: "char set" where
  "escapedquotes = {CHR 0x22}"

text \<open>A token that is empty and was never quoted is the end-of-input marker, not a word.\<close>

definition emit :: "string \<Rightarrow> bool \<Rightarrow> error + string list \<Rightarrow> error + string list" where
  "emit tok quoted r =
     (case r of Inl e \<Rightarrow> Inl e
      | Inr ws \<Rightarrow> Inr (if tok \<noteq> [] \<or> quoted then tok # ws else ws))"

text \<open>
  \<open>read_token\<close>, iterated until the input is exhausted. The arguments are the lexer
  state, \<open>escapedstate\<close>, the token under construction, the \<open>quoted\<close> flag and the
  unread input. With \<open>whitespace_split\<close> every character that is neither whitespace, a
  backslash nor a quote starts or extends a word, so the \<open>wordchars\<close> test and the
  \<open>whitespace_split\<close> branch of the source coincide.
\<close>

fun read_token :: "lex_state \<Rightarrow> lex_state \<Rightarrow> string \<Rightarrow> bool \<Rightarrow> string \<Rightarrow> error + string list" where
  "read_token Blank esc tok quoted [] = emit tok quoted (Inr [])"
| "read_token Word esc tok quoted [] = emit tok quoted (Inr [])"
| "read_token (Quoted q) esc tok quoted [] = Inl ValueError"
| "read_token Escaped esc tok quoted [] = Inl ValueError"
| "read_token Blank esc tok quoted (c # cs) =
     (if c \<in> whitespace then
        (if tok \<noteq> [] \<or> quoted then emit tok quoted (read_token Blank Blank [] False cs)
         else read_token Blank esc tok quoted cs)
      else if c \<in> escape then read_token Escaped Word tok quoted cs
      else if c \<in> quotes then read_token (Quoted c) esc tok quoted cs
      else read_token Word esc [c] quoted cs)"
| "read_token (Quoted q) esc tok quoted (c # cs) =
     (if c = q then read_token Word esc tok True cs
      else if c \<in> escape \<and> q \<in> escapedquotes then read_token Escaped (Quoted q) tok True cs
      else read_token (Quoted q) esc (tok @ [c]) True cs)"
| "read_token Escaped esc tok quoted (c # cs) =
     (case esc of
        Quoted q \<Rightarrow>
          (if c \<notin> escape \<and> c \<noteq> q then read_token esc esc (tok @ [CHR 0x5C, c]) quoted cs
           else read_token esc esc (tok @ [c]) quoted cs)
      | _ \<Rightarrow> read_token esc esc (tok @ [c]) quoted cs)"
| "read_token Word esc tok quoted (c # cs) =
     (if c \<in> whitespace then
        (if tok \<noteq> [] \<or> quoted then emit tok quoted (read_token Blank Blank [] False cs)
         else read_token Blank esc tok quoted cs)
      else if c \<in> quotes then read_token (Quoted c) esc tok quoted cs
      else if c \<in> escape then read_token Escaped Word tok quoted cs
      else read_token Word esc (tok @ [c]) quoted cs)"

definition shlex_split :: "string \<Rightarrow> error + string list" where
  "shlex_split line = read_token Blank Blank [] False line"

subsection \<open>Reading numbers\<close>

text \<open>
  Python's \<open>int(s)\<close> and \<open>float(s)\<close> on text: surrounding whitespace is stripped, a
  sign may come first, digits may be grouped by single underscores between two digits.
  \<open>float\<close> also reads a decimal point, a decimal exponent and the words \<open>inf\<close>,
  \<open>infinity\<close> and \<open>nan\<close> in any case. Characters are code points below 256; the
  interpreter's limit on the number of digits of an \<open>int\<close> is not modelled.
\<close>

definition py_isspace :: "char \<Rightarrow> bool" where
  "py_isspace c = ((of_char c :: nat) \<in> {9, 10, 11, 12, 13, 28, 29, 30, 31, 32, 133, 160})"

definition strip :: "string \<Rightarrow> string" where
  "strip s = rev (dropWhile py_isspace (rev (dropWhile py_isspace s)))"

definition is_digit :: "char \<Rightarrow> bool" where
  "is_digit c = (48 \<le> (of_char c :: nat) \<and> (of_char c :: nat) \<le> 57)"

definition digit_val :: "char \<Rightarrow> nat" where
  "digit_val c = of_char c - 48"

text \<open>
  The digits of a digit group, or \<open>None\<close> when the text is not one. The flag says
  whether the previous character was a digit: an underscore is allowed only there, and
  the group must end in a digit.
\<close>

fun digits :: "bool \<Rightarrow> string \<Rightarrow> nat list option" where
  "digits prev [] = (if prev then Some [] else None)"
| "digits prev (c # cs) =
     (if is_digit c then map_option ((#) (digit_val c)) (digits True cs)
      else if c = CHR ''_'' \<and> prev then digits False cs
      else None)"

definition nat_of_digits :: "nat list \<Rightarrow> nat" where
  "nat_of_digits ds = foldl (\<lambda>a d. 10 * a + d) 0 ds"

fun sign_split :: "string \<Rightarrow> bool \<times> string" where
  "sign_split [] = (False, [])"
| "sign_split (c # cs) =
     (if c = CHR ''-'' then (True, cs)
      else if c = CHR ''+'' then (False, cs)
      else (False, c # cs))"

definition py_int :: "string \<Rightarrow> int option" where
  "py_int s =
     (case sign_split (strip s) of (neg, body) \<Rightarrow>
        map_option (\<lambda>ds. if neg then - int (nat_of_digits ds) else int (nat_of_digits ds))
          (digits False body))"

text \<open>The code point of a character, with the letters \<open>A\<close> to \<open>Z\<close> folded to lower case.\<close>

definition lower :: "char \<Rightarrow> nat" where
  "lower c = (if 65 \<le> (of_char c :: nat) \<and> (of_char c :: nat) \<le> 90
              then of_char c + 32 else of_char c)"

definition ci_match :: "string \<Rightarrow> string \<Rightarrow> bool" where
  "ci_match s word = (map lower s = map of_char word)"

definition is_exp_char :: "char \<Rightarrow> bool" where
  "is_exp_char c = (c = CHR ''e'' \<or> c = CHR ''E'')"

text \<open>The mantissa: digits, an optional point, digits; at least one digit in all.\<close>

definition mantissa :: "string \<Rightarrow> real option" where
  "mantissa m =
     (let ip = takeWhile (\<lambda>c. c \<noteq> CHR ''.'') m;
          rest = dropWhile (\<lambda>c. c \<noteq> CHR ''.'') m
      in if rest = [] then map_option (\<lambda>ds. real (nat_of_digits ds)) (digits False ip)
         else
           (let fp = tl rest;
                iv = (if ip = [] then Some [] else digits False ip);
                fv = (if fp = [] then Some [] else digits False fp)
            in if ip = [] \<and> fp = [] then None
               else (case (iv, fv) of
                       (Some ids, Some fds) \<Rightarrow>
                         Some (real (nat_of_digits ids)
                               + real (nat_of_digits fds) / 10 ^ length fds)
                     | _ \<Rightarrow> None)))"

text \<open>The exponent part, empty or \<open>e\<close>, an optional sign and digits, as a factor.\<close>

definition exponent :: "string \<Rightarrow> real option" where
  "exponent x =
     (if x = [] then Some 1
      else (case sign_split (tl x) of (neg, body) \<Rightarrow>
              map_option (\<lambda>ds. if neg then 1 / 10 ^ nat_of_digits ds else 10 ^ nat_of_digits ds)
                (digits False body)))"

definition decimal :: "string \<Rightarrow> real option" where
  "decimal body =
     (case (mantissa (takeWhile (\<lambda>c. \<not> is_exp_char c) body),
            exponent (dropWhile (\<lambda>c. \<not> is_exp_char c) body)) of
        (Some m, Some e) \<Rightarrow> Some (m * e)
      | _ \<Rightarrow> None)"

definition py_float :: "string \<Rightarrow> pyfloat option" where
  "py_float s =
     (case sign_split (strip s) of (neg, body) \<Rightarrow>
        (if ci_match body ''inf'' \<or> ci_match body ''infinity''
         then Some (if neg then NegInf else PosInf)
         else if ci_match body ''nan'' then Some NaN
         else map_option (\<lambda>r. Finite (if neg then - r else r)) (decimal body)))"

subsection \<open>\<open>EyeLinkParser.split\<close>\<close>

text \<open>
  Each word is \<open>int(s)\<close> if that succeeds, else \<open>float(s)\<close> if that succeeds, else the
  word itself. The two \<open>try\<close> blocks catch everything the conversions raise;
  \<open>shlex.split\<close> is called outside them, so what it raises leaves the method.
\<close>

definition coerce :: "string \<Rightarrow> token" where
  "coerce s =
     (case py_int s of
        Some i \<Rightarrow> TInt i
      | None \<Rightarrow> (case py_float s of Some f \<Rightarrow> TFloat f | None \<Rightarrow> TText s))"

definition split_line :: "string \<Rightarrow> error + token list" where
  "split_line line =
     (case shlex_split line of Inl e \<Rightarrow> Inl e | Inr ws \<Rightarrow> Inr (map coerce ws))"

section \<open>The trial and phase state machine\<close>

text \<open>
  A table row maps a column name to its cell. \<open>trialdm[name] = value\<close> stores a scalar,
  \<open>trialdm[colname] = SeriesColumn(len(trace))\<close> followed by
  \<open>trialdm[colname][0] = trace\<close> stores the whole trace as that row's series. The table
  class itself is an external library; a per-file table is the list of its rows, and
  \<open><<=\<close> appends the rows of its right operand.
\<close>

datatype cell = NoneCell | Scalar token | Series "token list"

type_synonym row = "token \<rightharpoonup> cell"

text \<open>The attributes of an \<open>EyeLinkParser\<close> object that the parsing methods read and write.\<close>

record parser =
  path :: string
  filedm :: "row list"
  trialdm :: row
  trialid :: "token option"
  current_phase :: "token option"
  ptrace :: "token list"
  xtrace :: "token list"
  ytrace :: "token list"

text \<open>The dictionary returned by \<open>to_sample\<close>, with keys \<open>time\<close>, \<open>x\<close>, \<open>y\<close>, \<open>pupil_size\<close>.\<close>

record sample_dict =
  sample_time :: token
  sample_x :: token
  sample_y :: token
  sample_pupil_size :: token

definition to_sample :: "token list \<Rightarrow> sample_dict option" where
  "to_sample l =
     (if length l \<notin> {5, 9} \<or> is_text (l ! 0) then None
      else if is_text (l ! 0) then None
      else if is_text (l ! 1) then None
      else if py_eq (l ! 3) (TInt 0) \<or> is_text (l ! 3) then None
      else Some \<lparr>sample_time = l ! 0, sample_x = l ! 1, sample_y = l ! 2,
                  sample_pupil_size = l ! 3\<rparr>)"

definition is_start_trial :: "parser \<Rightarrow> token list \<Rightarrow> bool \<times> parser" where
  "is_start_trial p l =
     (if length l = 4 \<and> py_eq (l ! 0) (TText ''MSG'') \<and> py_eq (l ! 2) (TText ''start_trial'')
      then (True, p\<lparr>trialid := Some (l ! 3), current_phase := None\<rparr>)
      else (False, p))"

definition is_end_trial :: "parser \<Rightarrow> token list \<Rightarrow> bool \<times> parser" where
  "is_end_trial p l =
     (if length l = 3 \<and> py_eq (l ! 0) (TText ''MSG'') \<and> py_eq (l ! 2) (TText ''end_trial'')
      then (True, p\<lparr>trialid := None\<rparr>)
      else (False, p))"

definition parse_variable :: "parser \<Rightarrow> token list \<Rightarrow> parser" where
  "parse_variable p l =
     (if length l = 5 \<and> py_eq (l ! 0) (TText ''MSG'') \<and> py_eq (l ! 2) (TText ''var'')
      then p\<lparr>trialdm := (trialdm p)(l ! 3 \<mapsto> Scalar (l ! 4))\<rparr>
      else p)"

text \<open>\<open>name in trialdm\<close>, where the name may be \<open>None\<close>, which is no column.\<close>

definition in_dm :: "token option \<Rightarrow> row \<Rightarrow> bool" where
  "in_dm k dm = (case k of None \<Rightarrow> False | Some t \<Rightarrow> dm t \<noteq> None)"

text \<open>\<open>self.current_phase == l[3]\<close>, where the current phase may be \<open>None\<close>.\<close>

definition phase_eq :: "token option \<Rightarrow> token \<Rightarrow> bool" where
  "phase_eq k t = (case k of None \<Rightarrow> False | Some c \<Rightarrow> py_eq c t)"

text \<open>
  \<open>parse_phase\<close>, with assertions enabled (the interpreter's default). A failed
  \<open>assert\<close> raises \<open>AssertionError\<close>; \<open>prefix + self.current_phase\<close> raises \<open>TypeError\<close>
  when the phase name is a number.
\<close>

definition parse_phase :: "parser \<Rightarrow> token list \<Rightarrow> error + parser" where
  "parse_phase p l =
     (if length l = 4 \<and> py_eq (l ! 0) (TText ''MSG'') \<and> py_eq (l ! 2) (TText ''start_phase'')
      then
        (if current_phase p \<noteq> None then Inl AssertionError
         else if in_dm (current_phase p) (trialdm p) then Inl AssertionError
         else Inr (p\<lparr>current_phase := Some (l ! 3), ptrace := [], xtrace := [], ytrace := []\<rparr>))
      else if length l = 4 \<and> py_eq (l ! 0) (TText ''MSG'') \<and> py_eq (l ! 2) (TText ''end_phase'')
      then
        (if \<not> phase_eq (current_phase p) (l ! 3) then Inl AssertionError
         else (case current_phase p of
                 Some (TText name) \<Rightarrow>
                   Inr (p\<lparr>trialdm := (trialdm p)
                            (TText (''ptrace_'' @ name) \<mapsto> Series (ptrace p),
                             TText (''xtrace_'' @ name) \<mapsto> Series (xtrace p),
                             TText (''ytrace_'' @ name) \<mapsto> Series (ytrace p)),
                          current_phase := None\<rparr>)
               | _ \<Rightarrow> Inl TypeError))
      else if current_phase p = None then Inr p
      else (case to_sample l of
              None \<Rightarrow> Inr p
            | Some s \<Rightarrow>
                Inr (p\<lparr>ptrace := ptrace p @ [sample_pupil_size s],
                       xtrace := xtrace p @ [sample_x s],
                       ytrace := ytrace p @ [sample_y s]\<rparr>)))"

text \<open>The hook \<open>parse_line\<close> of the base class does nothing, like the four \<open>on_\<close> hooks.\<close>

definition parse_line :: "parser \<Rightarrow> token list \<Rightarrow> parser" where
  "parse_line p l = p"

text \<open>
  The loop of \<open>parse_trial\<close> over the file iterator \<open>f\<close>: it returns the parser and the
  lines it has not consumed. It ends at an \<open>end_trial\<close> line or when the file does.
\<close>

fun parse_trial_loop :: "parser \<Rightarrow> string list \<Rightarrow> error + parser \<times> string list" where
  "parse_trial_loop p [] = Inr (p, [])"
| "parse_trial_loop p (line # f) =
     (case split_line line of
        Inl e \<Rightarrow> Inl e
      | Inr l \<Rightarrow>
          (case is_end_trial p l of
             (True, p1) \<Rightarrow> Inr (p1, f)
           | (False, p1) \<Rightarrow>
               (case parse_phase (parse_variable p1 l) l of
                  Inl e \<Rightarrow> Inl e
                | Inr p2 \<Rightarrow> parse_trial_loop (parse_line p2 l) f)))"

definition cell_of :: "token option \<Rightarrow> cell" where
  "cell_of v = (case v of None \<Rightarrow> NoneCell | Some t \<Rightarrow> Scalar t)"

definition parse_trial :: "parser \<Rightarrow> string list \<Rightarrow> error + row \<times> parser \<times> string list" where
  "parse_trial p f =
     (case parse_trial_loop
             (p\<lparr>trialdm := [TText ''path'' \<mapsto> Scalar (TText (path p)),
                             TText ''trialid'' \<mapsto> cell_of (trialid p)]\<rparr>) f of
        Inl e \<Rightarrow> Inl e
      | Inr (p1, rest) \<Rightarrow> Inr (trialdm p1, p1, rest))"

text \<open>
  The loop of \<open>parse_file\<close> over the same iterator: after a \<open>start_trial\<close> line it hands
  the iterator to \<open>parse_trial\<close>, appends the row that comes back and goes on with the
  lines \<open>parse_trial\<close> left.
\<close>

function parse_file_loop :: "parser \<Rightarrow> string list \<Rightarrow> error + parser" where
  "parse_file_loop p [] = Inr p"
| "parse_file_loop p (line # f) =
     (case split_line line of
        Inl e \<Rightarrow> Inl e
      | Inr l \<Rightarrow>
          (case is_start_trial p l of
             (True, p1) \<Rightarrow>
               (case parse_trial p1 f of
                  Inl e \<Rightarrow> Inl e
                | Inr (r, p2, rest) \<Rightarrow> parse_file_loop (p2\<lparr>filedm := filedm p2 @ [r]\<rparr>) rest)
           | (False, p1) \<Rightarrow> parse_file_loop p1 f))"
  by pat_completeness auto
termination
proof -
  have shorter: "parse_trial_loop p f = Inr (p1, rest) \<Longrightarrow> length rest \<le> length f"
    for p p1 :: parser and f rest
  proof (induction f arbitrary: p)
    case Nil
    then show ?case by simp
  next
    case (Cons line f)
    then show ?case
      by (fastforce split: sum.splits prod.splits bool.splits)
  qed
  show ?thesis
    apply (relation "measure (\<lambda>(p, f). length f)")
      apply simp
     apply (auto simp: parse_trial_def split: sum.splits prod.splits dest!: shorter)
    done
qed

definition new_parser :: parser where
  "new_parser = \<lparr>path = [], filedm = [], trialdm = Map.empty, trialid = None,
                  current_phase = None, ptrace = [], xtrace = [], ytrace = []\<rparr>"

text \<open>
  \<open>parse_file\<close> on the lines of the file at \<open>path\<close>: the per-file table, and the parser
  as the call leaves it. Progress printing is left out.
\<close>

definition parse_file :: "parser \<Rightarrow> string \<Rightarrow> string list \<Rightarrow> error + row list \<times> parser" where
  "parse_file p pth lines =
     (case parse_file_loop (p\<lparr>filedm := [], path := pth\<rparr>) lines of
        Inl e \<Rightarrow> Inl e
      | Inr p1 \<Rightarrow> Inr (filedm p1, p1))"

section \<open>The event classes\<close>

text \<open>
  The module \<open>_events\<close>. The optional module \<open>fastnumbers\<close> is \<open>None\<close> when it is not
  installed; when it is, its \<open>isreal\<close> accepts every \<open>int\<close> and \<open>float\<close>, and its verdict on
  text is given.
\<close>

type_synonym fastnumbers = "(string \<Rightarrow> bool) option"

definition np_nan :: token where
  "np_nan = TFloat NaN"

text \<open>\<open>isinstance(v, (int, float))\<close> and \<open>v <= 0\<close>; not-a-number is below nothing.\<close>

fun is_number :: "token \<Rightarrow> bool" where
  "is_number (TText s) = False"
| "is_number v = True"

fun le_zero :: "token \<Rightarrow> bool" where
  "le_zero (TInt i) = (i \<le> 0)"
| "le_zero (TFloat (Finite r)) = (r \<le> 0)"
| "le_zero (TFloat NegInf) = True"
| "le_zero v = False"

fun isreal :: "(string \<Rightarrow> bool) \<Rightarrow> token \<Rightarrow> bool" where
  "isreal on_text (TText s) = on_text s"
| "isreal on_text v = True"

definition assert_numeric :: "fastnumbers \<Rightarrow> token list \<Rightarrow> nat list \<Rightarrow> error + unit" where
  "assert_numeric fn l indices =
     (case fn of
        Some on_text \<Rightarrow>
          (if list_all (\<lambda>i. isreal on_text (l ! i)) indices then Inr () else Inl TypeError)
      | None \<Rightarrow>
          (if list_all (\<lambda>i. is_number (l ! i) \<and> \<not> le_zero (l ! i)) indices then Inr ()
           else Inl TypeError))"

subsection \<open>Arithmetic on tokens\<close>

text \<open>
  \<open>int\<close> with \<open>int\<close> stays \<open>int\<close>, any \<open>float\<close> operand makes the result a \<open>float\<close>, a text
  operand raises \<open>TypeError\<close>. Floats are exact reals with the three non-finite values.
\<close>

fun fneg :: "pyfloat \<Rightarrow> pyfloat" where
  "fneg (Finite r) = Finite (- r)"
| "fneg PosInf = NegInf"
| "fneg NegInf = PosInf"
| "fneg NaN = NaN"

fun fadd :: "pyfloat \<Rightarrow> pyfloat \<Rightarrow> pyfloat" where
  "fadd (Finite a) (Finite b) = Finite (a + b)"
| "fadd NaN y = NaN"
| "fadd x NaN = NaN"
| "fadd PosInf NegInf = NaN"
| "fadd NegInf PosInf = NaN"
| "fadd PosInf y = PosInf"
| "fadd NegInf y = NegInf"
| "fadd x PosInf = PosInf"
| "fadd x NegInf = NegInf"

fun fsquare :: "pyfloat \<Rightarrow> pyfloat" where
  "fsquare (Finite r) = Finite (r * r)"
| "fsquare NaN = NaN"
| "fsquare x = PosInf"

fun fsqrt :: "pyfloat \<Rightarrow> pyfloat" where
  "fsqrt (Finite r) = (if r < 0 then NaN else Finite (sqrt r))"
| "fsqrt PosInf = PosInf"
| "fsqrt x = NaN"

fun py_sub :: "token \<Rightarrow> token \<Rightarrow> error + token" where
  "py_sub (TInt a) (TInt b) = Inr (TInt (a - b))"
| "py_sub (TInt a) (TFloat y) = Inr (TFloat (fadd (Finite (of_int a)) (fneg y)))"
| "py_sub (TFloat x) (TInt b) = Inr (TFloat (fadd x (Finite (- of_int b))))"
| "py_sub (TFloat x) (TFloat y) = Inr (TFloat (fadd x (fneg y)))"
| "py_sub x y = Inl TypeError"

fun py_add :: "token \<Rightarrow> token \<Rightarrow> error + token" where
  "py_add (TInt a) (TInt b) = Inr (TInt (a + b))"
| "py_add (TInt a) (TFloat y) = Inr (TFloat (fadd (Finite (of_int a)) y))"
| "py_add (TFloat x) (TInt b) = Inr (TFloat (fadd x (Finite (of_int b))))"
| "py_add (TFloat x) (TFloat y) = Inr (TFloat (fadd x y))"
| "py_add x y = Inl TypeError"

fun py_square :: "token \<Rightarrow> error + token" where
  "py_square (TInt a) = Inr (TInt (a * a))"
| "py_square (TFloat x) = Inr (TFloat (fsquare x))"
| "py_square (TText s) = Inl TypeError"

fun np_sqrt :: "token \<Rightarrow> error + token" where
  "np_sqrt (TInt a) = Inr (TFloat (fsqrt (Finite (of_int a))))"
| "np_sqrt (TFloat x) = Inr (TFloat (fsqrt x))"
| "np_sqrt (TText s) = Inl TypeError"

subsection \<open>Blink, Fixation, Saccade\<close>

record blink =
  blink_eye :: token
  blink_st :: token
  blink_et :: token
  blink_duration :: token

definition Blink_match :: "token list \<Rightarrow> bool" where
  "Blink_match l = (length l = 5 \<and> py_eq (l ! 0) (TText ''EBLINK''))"

definition Blink_init :: "fastnumbers \<Rightarrow> token list \<Rightarrow> error + blink" where
  "Blink_init fn l =
     (case assert_numeric fn l [2, 3, 4] of
        Inl e \<Rightarrow> Inl e
      | Inr u \<Rightarrow>
          Inr \<lparr>blink_eye = l ! 1, blink_st = l ! 2, blink_et = l ! 3, blink_duration = l ! 4\<rparr>)"

record fixation =
  fix_eye :: token
  fix_x :: token
  fix_y :: token
  fix_pupil_size :: token
  fix_st :: token
  fix_et :: token
  fix_duration :: token

definition Fixation_match :: "token list \<Rightarrow> bool" where
  "Fixation_match l = (length l = 8 \<and> py_eq (l ! 0) (TText ''EFIX''))"

definition Fixation_init :: "fastnumbers \<Rightarrow> token list \<Rightarrow> error + fixation" where
  "Fixation_init fn l =
     (case assert_numeric fn l [2, 3, 4, 5, 6, 7] of
        Inl e \<Rightarrow> Inl e
      | Inr u \<Rightarrow>
          (case py_sub (l ! 3) (l ! 2) of
             Inl e \<Rightarrow> Inl e
           | Inr d \<Rightarrow>
               Inr \<lparr>fix_eye = l ! 1, fix_x = l ! 5, fix_y = l ! 6, fix_pupil_size = l ! 7,
                    fix_st = l ! 2, fix_et = l ! 3, fix_duration = d\<rparr>))"

record saccade =
  sacc_sx :: token
  sacc_sy :: token
  sacc_ex :: token
  sacc_ey :: token
  sacc_size :: token
  sacc_eye :: token
  sacc_st :: token
  sacc_et :: token
  sacc_duration :: token

definition Saccade_match :: "token list \<Rightarrow> bool" where
  "Saccade_match l = (length l \<in> {11, 15} \<and> py_eq (l ! 0) (TText ''ESACC''))"

text \<open>\<open>np.sqrt((sx - ex)**2 + (sy - ey)**2)\<close>.\<close>

definition distance :: "token \<Rightarrow> token \<Rightarrow> token \<Rightarrow> token \<Rightarrow> error + token" where
  "distance sx sy ex ey =
     (case py_sub sx ex of Inl e \<Rightarrow> Inl e | Inr dx \<Rightarrow>
      (case py_square dx of Inl e \<Rightarrow> Inl e | Inr dx2 \<Rightarrow>
       (case py_sub sy ey of Inl e \<Rightarrow> Inl e | Inr dy \<Rightarrow>
        (case py_square dy of Inl e \<Rightarrow> Inl e | Inr dy2 \<Rightarrow>
         (case py_add dx2 dy2 of Inl e \<Rightarrow> Inl e | Inr sm \<Rightarrow> np_sqrt sm)))))"

definition Saccade_init :: "fastnumbers \<Rightarrow> token list \<Rightarrow> error + saccade" where
  "Saccade_init fn l =
     (let k = (if length l = 11 then 5 else 9)
      in case assert_numeric fn l [2, 3, k, k + 1, k + 2, k + 3] of
           Inl e \<Rightarrow> Inl e
         | Inr u \<Rightarrow>
             (case distance (l ! k) (l ! (k + 1)) (l ! (k + 2)) (l ! (k + 3)) of
                Inl e \<Rightarrow> Inl e
              | Inr sz \<Rightarrow>
                  (case py_sub (l ! 3) (l ! 2) of
                     Inl e \<Rightarrow> Inl e
                   | Inr d \<Rightarrow>
                       Inr \<lparr>sacc_sx = l ! k, sacc_sy = l ! (k + 1), sacc_ex = l ! (k + 2),
                            sacc_ey = l ! (k + 3), sacc_size = sz, sacc_eye = l ! 1,
                            sacc_st = l ! 2, sacc_et = l ! 3, sacc_duration = d\<rparr>)))"

subsection \<open>Sample\<close>

text \<open>
  A \<open>Sample\<close> object. An attribute that \<open>__init__\<close> never assigned is \<open>None\<close> here: that
  happens when \<open>eyes_recorded\<close> is none of \<open>both\<close>, \<open>right\<close>, \<open>left\<close>.
\<close>

record sample =
  smp_t :: token
  smp_lx :: "token option"
  smp_ly :: "token option"
  smp_lpupil_size :: "token option"
  smp_rx :: "token option"
  smp_ry :: "token option"
  smp_rpupil_size :: "token option"

definition Sample_match :: "token list \<Rightarrow> bool" where
  "Sample_match l = (length l \<in> {5, 6, 8, 9} \<and> \<not> is_text (l ! 0))"

text \<open>\<open>l[i]\<close>, which raises \<open>IndexError\<close> past the end of the list.\<close>

definition item :: "token list \<Rightarrow> nat \<Rightarrow> error + token" where
  "item l i = (if i < length l then Inr (l ! i) else Inl IndexError)"

text \<open>A position field: \<open>np.nan\<close> if \<open>l[i] == '.'\<close>, else \<open>l[i]\<close>.\<close>

definition position :: "token list \<Rightarrow> nat \<Rightarrow> error + token" where
  "position l i =
     (case item l i of
        Inl e \<Rightarrow> Inl e
      | Inr v \<Rightarrow> Inr (if py_eq v (TText ''.'') then np_nan else v))"

text \<open>A pupil-size field: \<open>np.nan\<close> if \<open>l[i] in (0, '.')\<close>, else \<open>l[i]\<close>.\<close>

definition pupil :: "token list \<Rightarrow> nat \<Rightarrow> error + token" where
  "pupil l i =
     (case item l i of
        Inl e \<Rightarrow> Inl e
      | Inr v \<Rightarrow> Inr (if py_eq v (TInt 0) \<or> py_eq v (TText ''.'') then np_nan else v))"

text \<open>The three fields of one eye, read from position \<open>i\<close> on, in the order of the source.\<close>

definition eye_fields :: "token list \<Rightarrow> nat \<Rightarrow> error + token \<times> token \<times> token" where
  "eye_fields l i =
     (case position l i of Inl e \<Rightarrow> Inl e | Inr vx \<Rightarrow>
      (case position l (i + 1) of Inl e \<Rightarrow> Inl e | Inr vy \<Rightarrow>
       (case pupil l (i + 2) of Inl e \<Rightarrow> Inl e | Inr vp \<Rightarrow> Inr (vx, vy, vp))))"

definition Sample_init :: "fastnumbers \<Rightarrow> token list \<Rightarrow> string \<Rightarrow> error + sample" where
  "Sample_init fn l eyes_recorded =
     (case assert_numeric fn l [0] of
        Inl e \<Rightarrow> Inl e
      | Inr u \<Rightarrow>
          (if eyes_recorded = ''both'' then
             (case eye_fields l 1 of Inl e \<Rightarrow> Inl e | Inr (vlx, vly, vlp) \<Rightarrow>
              (case eye_fields l 4 of Inl e \<Rightarrow> Inl e | Inr (vrx, vry, vrp) \<Rightarrow>
                 Inr \<lparr>smp_t = l ! 0, smp_lx = Some vlx, smp_ly = Some vly,
                      smp_lpupil_size = Some vlp, smp_rx = Some vrx, smp_ry = Some vry,
                      smp_rpupil_size = Some vrp\<rparr>))
           else if eyes_recorded = ''right'' then
             (case eye_fields l 1 of Inl e \<Rightarrow> Inl e | Inr (vrx, vry, vrp) \<Rightarrow>
                 Inr \<lparr>smp_t = l ! 0, smp_lx = Some np_nan, smp_ly = Some np_nan,
                      smp_lpupil_size = Some np_nan, smp_rx = Some vrx, smp_ry = Some vry,
                      smp_rpupil_size = Some vrp\<rparr>)
           else if eyes_recorded = ''left'' then
             (case eye_fields l 1 of Inl e \<Rightarrow> Inl e | Inr (vlx, vly, vlp) \<Rightarrow>
                 Inr \<lparr>smp_t = l ! 0, smp_lx = Some vlx, smp_ly = Some vly,
                      smp_lpupil_size = Some vlp, smp_rx = Some np_nan, smp_ry = Some np_nan,
                      smp_rpupil_size = Some np_nan\<rparr>)
           else
             Inr \<lparr>smp_t = l ! 0, smp_lx = None, smp_ly = None, smp_lpupil_size = None,
                  smp_rx = None, smp_ry = None, smp_rpupil_size = None\<rparr>))"

subsection \<open>\<open>event\<close> and its four entry points\<close>

text \<open>
  \<open>event\<close> returns \<open>None\<close> when the class does not match the line, and when the
  constructor raises: a \<open>TypeError\<close> is passed over, any other exception is turned into
  a warning. The warning is console output and is not part of the result.
\<close>

definition event :: "(token list \<Rightarrow> bool) \<Rightarrow> (token list \<Rightarrow> error + 'a) \<Rightarrow> token list \<Rightarrow> 'a option" where
  "event match init l =
     (if \<not> match l then None
      else (case init l of Inl e \<Rightarrow> None | Inr r \<Rightarrow> Some r))"

definition sample_event :: "fastnumbers \<Rightarrow> token list \<Rightarrow> string \<Rightarrow> sample option" where
  "sample_event fn l eyes_recorded = event Sample_match (\<lambda>l. Sample_init fn l eyes_recorded) l"

definition fixation_event :: "fastnumbers \<Rightarrow> token list \<Rightarrow> fixation option" where
  "fixation_event fn l = event Fixation_match (Fixation_init fn) l"

definition saccade_event :: "fastnumbers \<Rightarrow> token list \<Rightarrow> saccade option" where
  "saccade_event fn l = event Saccade_match (Saccade_init fn) l"

definition blink_event :: "fastnumbers \<Rightarrow> token list \<Rightarrow> blink option" where
  "blink_event fn l = event Blink_match (Blink_init fn) l"

section \<open>Auxiliary notions for the statements\<close>

text \<open>The table \<open>parse_file\<close> returns, without the parser object.\<close>

definition file_rows :: "parser \<Rightarrow> string \<Rightarrow> string list \<Rightarrow> error + row list" where
  "file_rows p pth lines =
     (case parse_file p pth lines of Inl e \<Rightarrow> Inl e | Inr (rows, q) \<Rightarrow> Inr rows)"

text \<open>The row every trial starts from: the columns \<open>path\<close> and \<open>trialid\<close>.\<close>

definition fresh_row :: "string \<Rightarrow> token \<Rightarrow> row" where
  "fresh_row pth tid = [TText ''path'' \<mapsto> Scalar (TText pth), TText ''trialid'' \<mapsto> Scalar tid]"

text \<open>A row with the three trace columns of a phase set.\<close>

definition with_traces :: "row \<Rightarrow> string \<Rightarrow> token list \<Rightarrow> token list \<Rightarrow> token list \<Rightarrow> row" where
  "with_traces r name pt xt yt =
     r(TText (''ptrace_'' @ name) \<mapsto> Series pt,
       TText (''xtrace_'' @ name) \<mapsto> Series xt,
       TText (''ytrace_'' @ name) \<mapsto> Series yt)"

text \<open>The marker lines, as the methods recognise them.\<close>

definition start_trial_line :: "token list \<Rightarrow> bool" where
  "start_trial_line l = fst (is_start_trial new_parser l)"

definition end_trial_line :: "token list \<Rightarrow> bool" where
  "end_trial_line l = fst (is_end_trial new_parser l)"




text \<open>The value of a token that is a finite number.\<close>

fun num :: "token \<Rightarrow> real option" where
  "num (TInt i) = Some (of_int i)"
| "num (TFloat (Finite r)) = Some r"
| "num v = None"

section \<open>Tokenized lines of the scenarios\<close>

lemmas tokenizer_defs =
  split_line_def shlex_split_def whitespace_def quotes_def escape_def escapedquotes_def emit_def
  coerce_def py_int_def py_float_def strip_def py_isspace_def is_digit_def digit_val_def
  nat_of_digits_def lower_def ci_match_def decimal_def mantissa_def exponent_def is_exp_char_def

lemmas machine_defs =
  file_rows_def parse_file_def parse_trial_def is_start_trial_def is_end_trial_def
  parse_variable_def parse_phase_def parse_line_def to_sample_def in_dm_def phase_eq_def
  cell_of_def new_parser_def fresh_row_def with_traces_def

lemma split_start_trial:
  "split_line ''MSG 100 start_trial 1'' = Inr [TText ''MSG'', TInt 100, TText ''start_trial'', TInt 1]"
  by (simp add: tokenizer_defs)

lemma split_var:
  "split_line ''MSG 101 var cond A''
   = Inr [TText ''MSG'', TInt 101, TText ''var'', TText ''cond'', TText ''A'']"
  by (simp add: tokenizer_defs)

lemma split_start_phase:
  "split_line ''MSG 102 start_phase probe''
   = Inr [TText ''MSG'', TInt 102, TText ''start_phase'', TText ''probe'']"
  by (simp add: tokenizer_defs)

lemma split_sample4:
  "split_line ''4815155 168.2 406.5 2141.0''
   = Inr [TInt 4815155, TFloat (Finite (1682 / 10)), TFloat (Finite (4065 / 10)),
          TFloat (Finite 2141)]"
  by (simp add: tokenizer_defs)

lemma split_sample5:
  "split_line ''4815155 168.2 406.5 2141.0 ...''
   = Inr [TInt 4815155, TFloat (Finite (1682 / 10)), TFloat (Finite (4065 / 10)),
          TFloat (Finite 2141), TText ''...'']"
  by (simp add: tokenizer_defs)

lemma split_end_phase:
  "split_line ''MSG 103 end_phase probe''
   = Inr [TText ''MSG'', TInt 103, TText ''end_phase'', TText ''probe'']"
  by (simp add: tokenizer_defs)

lemma split_end_trial:
  "split_line ''MSG 104 end_trial'' = Inr [TText ''MSG'', TInt 104, TText ''end_trial'']"
  by (simp add: tokenizer_defs)

lemmas scenario_lines =
  split_start_trial split_var split_start_phase split_sample4 split_sample5 split_end_phase
  split_end_trial

section \<open>The concrete scenario\<close>

text \<open>
  Claim C1, as stated, fails. The scenario's sample line \<open>4815155 168.2 406.5 2141.0\<close>
  has four tokens, and \<open>to_sample\<close> accepts only lines of five or nine tokens, so the line
  is skipped: the one trial row has \<open>cond\<close> set and three empty traces.
\<close>

theorem scenario_four_tokens_counterexample:
  "file_rows new_parser ''data/s.asc''
     [''MSG 100 start_trial 1'', ''MSG 101 var cond A'', ''MSG 102 start_phase probe'',
      ''4815155 168.2 406.5 2141.0'', ''MSG 103 end_phase probe'', ''MSG 104 end_trial'']
   = Inr [with_traces ((fresh_row ''data/s.asc'' (TInt 1))(TText ''cond'' \<mapsto> Scalar (TText ''A'')))
            ''probe'' [] [] []]
   \<and> Series [] \<noteq> Series [TFloat (Finite 2141)]"
  by (simp add: scenario_lines machine_defs)

text \<open>
  Claim C1, amended. Parsing the six lines produces exactly one trial row with
  \<open>cond = "A"\<close> and the traces \<open>ptrace_probe\<close>, \<open>xtrace_probe\<close>, \<open>ytrace_probe\<close> all empty,
  since the four-token sample line is not accepted. With the sample line carrying its
  fifth field, \<open>4815155 168.2 406.5 2141.0 ...\<close>, the one row has \<open>cond = "A"\<close>,
  \<open>ptrace_probe = [2141.0]\<close>, \<open>xtrace_probe = [168.2]\<close>, \<open>ytrace_probe = [406.5]\<close>, each
  of length 1.
\<close>

theorem scenario_rows:
  "file_rows new_parser ''data/s.asc''
     [''MSG 100 start_trial 1'', ''MSG 101 var cond A'', ''MSG 102 start_phase probe'',
      ''4815155 168.2 406.5 2141.0'', ''MSG 103 end_phase probe'', ''MSG 104 end_trial'']
   = Inr [with_traces ((fresh_row ''data/s.asc'' (TInt 1))(TText ''cond'' \<mapsto> Scalar (TText ''A'')))
            ''probe'' [] [] []]
   \<and> file_rows new_parser ''data/s.asc''
     [''MSG 100 start_trial 1'', ''MSG 101 var cond A'', ''MSG 102 start_phase probe'',
      ''4815155 168.2 406.5 2141.0 ...'', ''MSG 103 end_phase probe'', ''MSG 104 end_trial'']
   = Inr [with_traces ((fresh_row ''data/s.asc'' (TInt 1))(TText ''cond'' \<mapsto> Scalar (TText ''A'')))
            ''probe'' [TFloat (Finite 2141)] [TFloat (Finite (1682 / 10))]
            [TFloat (Finite (4065 / 10))]]"
  by (simp add: scenario_lines machine_defs)

section \<open>Facts about the methods\<close>

lemma py_eq_text: "py_eq v (TText a) \<Longrightarrow> v = TText a"
  by (cases v) auto

lemma is_end_trial_no: "\<not> end_trial_line l \<Longrightarrow> is_end_trial p l = (False, p)"
  by (simp add: end_trial_line_def is_end_trial_def split: if_splits)

lemma is_end_trial_yes: "end_trial_line l \<Longrightarrow> is_end_trial p l = (True, p\<lparr>trialid := None\<rparr>)"
  by (simp add: end_trial_line_def is_end_trial_def split: if_splits)

lemma is_start_trial_yes:
  "start_trial_line l
   \<Longrightarrow> is_start_trial p l = (True, p\<lparr>trialid := Some (l ! 3), current_phase := None\<rparr>)"
  by (simp add: start_trial_line_def is_start_trial_def split: if_splits)

lemma start_trial_line_shape:
  "start_trial_line l \<Longrightarrow> length l = 4 \<and> l ! 0 = TText ''MSG'' \<and> l ! 2 = TText ''start_trial''"
  by (auto simp: start_trial_line_def is_start_trial_def dest: py_eq_text split: if_splits)

lemma parse_variable_filedm: "filedm (parse_variable p l) = filedm p"
  by (simp add: parse_variable_def)

lemma parse_phase_filedm: "parse_phase p l = Inr q \<Longrightarrow> filedm q = filedm p"
  by (auto simp: parse_phase_def split: if_splits option.splits token.splits)

lemma parse_trial_loop_filedm:
  "parse_trial_loop p f = Inr (q, rest) \<Longrightarrow> filedm q = filedm p"
proof (induction f arbitrary: p)
  case Nil
  then show ?case by simp
next
  case (Cons line f)
  from Cons.prems obtain l where l: "split_line line = Inr l"
    by (auto split: sum.splits)
  show ?case
  proof (cases "end_trial_line l")
    case True
    with Cons.prems l show ?thesis
      by (auto simp: is_end_trial_yes)
  next
    case False
    with Cons.prems l obtain p2 where
      p2: "parse_phase (parse_variable p l) l = Inr p2"
      and rest: "parse_trial_loop (parse_line p2 l) f = Inr (q, rest)"
      by (auto simp: is_end_trial_no split: sum.splits)
    from Cons.IH [OF rest] have "filedm q = filedm p2"
      by (simp add: parse_line_def)
    with parse_phase_filedm [OF p2] show ?thesis
      by (simp add: parse_variable_filedm)
  qed
qed

lemma parse_trial_loop_exhausts:
  "parse_trial_loop p f = Inr (q, rest)
   \<Longrightarrow> \<forall>ln \<in> set f. \<forall>t. split_line ln = Inr t \<longrightarrow> \<not> end_trial_line t
   \<Longrightarrow> rest = []"
proof (induction f arbitrary: p)
  case Nil
  then show ?case by simp
next
  case (Cons line f)
  from Cons.prems(1) obtain l where l: "split_line line = Inr l"
    by (auto split: sum.splits)
  with Cons.prems(2) have no: "\<not> end_trial_line l"
    by simp
  with Cons.prems(1) l obtain p2 where
    "parse_trial_loop (parse_line p2 l) f = Inr (q, rest)"
    by (auto simp: is_end_trial_no split: sum.splits)
  with Cons.IH Cons.prems(2) show ?case
    by simp
qed

section \<open>A trial-start line inside an open trial\<close>

text \<open>
  Claim C10. While a trial is open, a line that matches the \<open>start_trial\<close> pattern is
  an ordinary non-matching line: the loop of \<open>parse_trial\<close> goes on with the parser
  unchanged, so no new trial row is opened and the following lines accrue to the open
  trial.
\<close>

theorem nested_start_trial_ignored:
  assumes "split_line line = Inr l" and "start_trial_line l"
  shows "parse_trial_loop p (line # f) = parse_trial_loop p f"
proof -
  from assms(2) have shape: "length l = 4" "l ! 0 = TText ''MSG''" "l ! 2 = TText ''start_trial''"
    using start_trial_line_shape by blast+
  have e: "is_end_trial p l = (False, p)"
    using shape by (simp add: is_end_trial_def)
  have v: "parse_variable p l = p"
    using shape by (simp add: parse_variable_def)
  have s: "to_sample l = None"
    using shape by (simp add: to_sample_def)
  have ph: "parse_phase p l = Inr p"
    using shape s by (simp add: parse_phase_def)
  show ?thesis
    using assms(1) e v ph by (simp add: parse_line_def)
qed

theorem nested_start_trial_ignored_witness:
  "parse_trial_loop new_parser [''MSG 100 start_trial 1'', ''MSG 104 end_trial'']
   = parse_trial_loop new_parser [''MSG 104 end_trial'']"
proof -
  have "start_trial_line [TText ''MSG'', TInt 100, TText ''start_trial'', TInt 1]"
    by (simp add: start_trial_line_def is_start_trial_def)
  from nested_start_trial_ignored [OF split_start_trial this] show ?thesis .
qed

section \<open>End of trial and end of file\<close>

text \<open>
  Claim C6, as stated, fails. An \<open>end_trial\<close> line seen while the phase \<open>probe\<close> is open
  raises nothing: the file parses to one row, and the sample accumulated in the open
  phase is in no column of it.
\<close>

theorem end_trial_open_phase_counterexample:
  "file_rows new_parser ''data/s.asc''
     [''MSG 100 start_trial 1'', ''MSG 101 var cond A'', ''MSG 102 start_phase probe'',
      ''4815155 168.2 406.5 2141.0 ...'', ''MSG 104 end_trial'']
   = Inr [(fresh_row ''data/s.asc'' (TInt 1))(TText ''cond'' \<mapsto> Scalar (TText ''A''))]"
  by (simp add: scenario_lines machine_defs)

text \<open>
  Claim C6, amended. An \<open>end_trial\<close> line closes the trial whether or not a phase is
  open: \<open>is_end_trial\<close> does not look at the current phase, no error is raised, and the
  loop of \<open>parse_trial\<close> returns with the trial's row as it was before the line, so the
  traces accumulated in a phase that is still open are not written to the row.
\<close>

theorem end_trial_closes_without_check:
  assumes "split_line line = Inr l" and "end_trial_line l" and "current_phase p = Some c"
  shows "parse_trial_loop p (line # f) = Inr (p\<lparr>trialid := None\<rparr>, f)
         \<and> trialdm (p\<lparr>trialid := None\<rparr>) = trialdm p
         \<and> current_phase (p\<lparr>trialid := None\<rparr>) = Some c"
  using assms by (simp add: is_end_trial_yes)

theorem end_trial_closes_without_check_witness:
  "parse_trial_loop (new_parser\<lparr>current_phase := Some (TText ''probe''),
                               ptrace := [TFloat (Finite 2141)]\<rparr>)
     [''MSG 104 end_trial'']
   = Inr (new_parser\<lparr>current_phase := Some (TText ''probe''),
                      ptrace := [TFloat (Finite 2141)], trialid := None\<rparr>, [])"
proof -
  have "end_trial_line [TText ''MSG'', TInt 104, TText ''end_trial'']"
    by (simp add: end_trial_line_def is_end_trial_def)
  from end_trial_closes_without_check [OF split_end_trial this, of _ "TText ''probe''"]
  show ?thesis
    by simp
qed

text \<open>
  Claim C5, as stated, fails. A file that ends inside a trial, here inside the phase
  \<open>probe\<close> of the trial, yields a table with one row: the unterminated trial.
\<close>

theorem unterminated_trial_counterexample:
  "file_rows new_parser ''data/s.asc''
     [''MSG 100 start_trial 1'', ''MSG 101 var cond A'', ''MSG 102 start_phase probe'',
      ''4815155 168.2 406.5 2141.0 ...'']
   = Inr [(fresh_row ''data/s.asc'' (TInt 1))(TText ''cond'' \<mapsto> Scalar (TText ''A''))]"
  by (simp add: scenario_lines machine_defs)

text \<open>
  Claim C5, amended. When the lines after a \<open>start_trial\<close> line hold no \<open>end_trial\<close>
  line and the file parses, the loop of \<open>parse_trial\<close> ends with the file and its row is
  appended to the per-file table like that of a closed trial: the unterminated trial
  contributes one row, with the columns set until the end of the file. The traces of a
  phase still open then are in no column.
\<close>

theorem unterminated_trial_row:
  assumes "split_line line = Inr l" and "start_trial_line l"
    and "\<forall>ln \<in> set f. \<forall>t. split_line ln = Inr t \<longrightarrow> \<not> end_trial_line t"
    and "parse_file_loop p (line # f) = Inr p'"
  shows "\<exists>q. parse_trial (p\<lparr>trialid := Some (l ! 3), current_phase := None\<rparr>) f
               = Inr (trialdm q, q, [])
             \<and> filedm p' = filedm p @ [trialdm q]"
proof -
  let ?p1 = "p\<lparr>trialid := Some (l ! 3), current_phase := None\<rparr>"
  from assms(1,2,4) obtain r q rest where
    tr: "parse_trial ?p1 f = Inr (r, q, rest)"
    and fl: "parse_file_loop (q\<lparr>filedm := filedm q @ [r]\<rparr>) rest = Inr p'"
    by (auto simp: is_start_trial_yes split: sum.splits)
  from tr obtain p0 where
    loop: "parse_trial_loop p0 f = Inr (q, rest)" and r: "r = trialdm q"
    and p0: "filedm p0 = filedm p"
    by (auto simp: parse_trial_def split: sum.splits)
  from parse_trial_loop_exhausts [OF loop assms(3)] have rest: "rest = []" .
  from parse_trial_loop_filedm [OF loop] p0 have "filedm q = filedm p"
    by simp
  with tr fl r rest show ?thesis
    by auto
qed

theorem unterminated_trial_row_witness:
  "\<exists>q. parse_trial (new_parser\<lparr>trialid := Some (TInt 1), current_phase := None\<rparr>)
          [''MSG 101 var cond A'']
        = Inr (trialdm q, q, [])
      \<and> [trialdm q]
        = [[TText ''path'' \<mapsto> Scalar (TText []), TText ''trialid'' \<mapsto> Scalar (TInt 1),
            TText ''cond'' \<mapsto> Scalar (TText ''A'')]]"
proof -
  have st: "start_trial_line [TText ''MSG'', TInt 100, TText ''start_trial'', TInt 1]"
    by (simp add: start_trial_line_def is_start_trial_def)
  have no: "\<forall>ln \<in> set [''MSG 101 var cond A'']. \<forall>t. split_line ln = Inr t \<longrightarrow> \<not> end_trial_line t"
    by (simp add: split_var end_trial_line_def is_end_trial_def)
  have run: "parse_file_loop new_parser [''MSG 100 start_trial 1'', ''MSG 101 var cond A'']
    = Inr (new_parser\<lparr>trialid := Some (TInt 1), current_phase := None,
             trialdm := [TText ''path'' \<mapsto> Scalar (TText []),
                         TText ''trialid'' \<mapsto> Scalar (TInt 1),
                         TText ''cond'' \<mapsto> Scalar (TText ''A'')],
             filedm := [[TText ''path'' \<mapsto> Scalar (TText []),
                         TText ''trialid'' \<mapsto> Scalar (TInt 1),
                         TText ''cond'' \<mapsto> Scalar (TText ''A'')]]\<rparr>)"
    by (simp add: scenario_lines machine_defs)
  from unterminated_trial_row [OF split_start_trial st no run] obtain q where
    "parse_trial (new_parser\<lparr>trialid := Some (TInt 1), current_phase := None\<rparr>)
       [''MSG 101 var cond A''] = Inr (trialdm q, q, [])"
    and "trialdm q = [TText ''path'' \<mapsto> Scalar (TText []),
                      TText ''trialid'' \<mapsto> Scalar (TInt 1),
                      TText ''cond'' \<mapsto> Scalar (TText ''A'')]"
    by (auto simp: new_parser_def)
  then show ?thesis
    by auto
qed

section \<open>Phase names used twice\<close>

text \<open>
  Claim C7 at a failing input. The trial opens the phase \<open>probe\<close>, records one sample,
  closes it, then opens and closes a phase of the same name. The second \<open>start_phase\<close>
  is accepted, and the second \<open>end_phase\<close> replaces the three trace columns of the first
  phase by empty traces.
\<close>

theorem phase_name_reuse_overwrites:
  "file_rows new_parser ''data/s.asc''
     [''MSG 100 start_trial 1'', ''MSG 102 start_phase probe'',
      ''4815155 168.2 406.5 2141.0 ...'', ''MSG 103 end_phase probe'',
      ''MSG 102 start_phase probe'', ''MSG 103 end_phase probe'', ''MSG 104 end_trial'']
   = Inr [with_traces (fresh_row ''data/s.asc'' (TInt 1)) ''probe'' [] [] []]"
  by (simp add: scenario_lines machine_defs)

section \<open>Traces of a phase\<close>












section \<open>The tokenizer's outcomes\<close>








section \<open>Durations and amplitudes\<close>

lemma py_sub_num:
  "num a = Some x \<Longrightarrow> num b = Some y \<Longrightarrow> py_sub a b = Inr d \<Longrightarrow> num d = Some (x - y)"
  by (cases a; cases b) (auto elim!: num.elims)

lemma distance_num:
  assumes "num sx = Some x1" and "num sy = Some y1" and "num ex = Some x2" and "num ey = Some y2"
    and "distance sx sy ex ey = Inr sz"
  shows "num sz = Some (sqrt ((x1 - x2)\<^sup>2 + (y1 - y2)\<^sup>2))"
proof -
  from assms(5) obtain dx dx2 dy dy2 sm where
    dx: "py_sub sx ex = Inr dx" and dx2: "py_square dx = Inr dx2"
    and dy: "py_sub sy ey = Inr dy" and dy2: "py_square dy = Inr dy2"
    and sm: "py_add dx2 dy2 = Inr sm" and sz: "np_sqrt sm = Inr sz"
    by (auto simp: distance_def split: sum.splits)
  from py_sub_num [OF assms(1) assms(3) dx] have ndx: "num dx = Some (x1 - x2)" .
  from py_sub_num [OF assms(2) assms(4) dy] have ndy: "num dy = Some (y1 - y2)" .
  from ndx dx2 have ndx2: "num dx2 = Some ((x1 - x2)\<^sup>2)"
    by (cases dx) (auto simp: power2_eq_square elim!: num.elims)
  from ndy dy2 have ndy2: "num dy2 = Some ((y1 - y2)\<^sup>2)"
    by (cases dy) (auto simp: power2_eq_square elim!: num.elims)
  from ndx2 ndy2 sm have nsm: "num sm = Some ((x1 - x2)\<^sup>2 + (y1 - y2)\<^sup>2)"
    by (cases dx2; cases dy2) (auto elim!: num.elims)
  have "\<not> (x1 - x2)\<^sup>2 + (y1 - y2)\<^sup>2 < 0"
    by (simp add: not_less)
  with nsm sz show ?thesis
    by (cases sm) (auto elim!: num.elims)
qed

text \<open>
  Claim C8, as stated, fails. A decoded \<open>Blink\<close> carries as its duration the fifth
  token of the line, which is not the end time minus the start time: for the example line
  of the class's own documentation, \<open>EBLINK R 5294685 5294774 90\<close>, the duration is 90 and
  the difference of the times is 89.
\<close>

theorem blink_duration_counterexample:
  "blink_event None [TText ''EBLINK'', TText ''R'', TInt 5294685, TInt 5294774, TInt 90]
   = Some \<lparr>blink_eye = TText ''R'', blink_st = TInt 5294685, blink_et = TInt 5294774,
            blink_duration = TInt 90\<rparr>
   \<and> py_sub (TInt 5294774) (TInt 5294685) = Inr (TInt 89)"
  by (simp add: blink_event_def event_def Blink_match_def Blink_init_def assert_numeric_def)

text \<open>
  Claim C8, amended. For every decoded Fixation and every decoded Saccade whose start
  and end times are finite numbers, the duration is the end time minus the start time;
  for every decoded Saccade whose four coordinates are finite numbers, \<open>size\<close> is the
  Euclidean distance between \<open>(sx, sy)\<close> and \<open>(ex, ey)\<close>. A decoded Blink's duration is
  the fifth token of its line as recorded, and a Fixation has no \<open>size\<close>. Numbers are
  exact here: the rounding of floats is outside the model.
\<close>

theorem event_durations:
  "(fixation_event fn l = Some fx \<and> num (fix_st fx) = Some a \<and> num (fix_et fx) = Some b
      \<longrightarrow> num (fix_duration fx) = Some (b - a))
   \<and> (saccade_event fn l = Some sc \<and> num (sacc_st sc) = Some a \<and> num (sacc_et sc) = Some b
      \<longrightarrow> num (sacc_duration sc) = Some (b - a))
   \<and> (saccade_event fn l = Some sc \<and> num (sacc_sx sc) = Some x1 \<and> num (sacc_sy sc) = Some y1
        \<and> num (sacc_ex sc) = Some x2 \<and> num (sacc_ey sc) = Some y2
      \<longrightarrow> num (sacc_size sc) = Some (sqrt ((x1 - x2)\<^sup>2 + (y1 - y2)\<^sup>2)))
   \<and> (blink_event fn l = Some bl
      \<longrightarrow> blink_st bl = l ! 2 \<and> blink_et bl = l ! 3 \<and> blink_duration bl = l ! 4)"
proof -
  have fdur: "num (fix_duration fx) = Some (b - a)"
    if "fixation_event fn l = Some fx" "num (fix_st fx) = Some a" "num (fix_et fx) = Some b"
  proof -
    from that(1) obtain d where "py_sub (l ! 3) (l ! 2) = Inr d"
      and "fix_st fx = l ! 2" "fix_et fx = l ! 3" "fix_duration fx = d"
      by (auto simp: fixation_event_def event_def Fixation_init_def split: if_splits sum.splits)
    with that(2,3) show ?thesis
      using py_sub_num [of "l ! 3" b "l ! 2" a d] by simp
  qed
  have sacc: "\<exists>d. py_sub (l ! 3) (l ! 2) = Inr d
        \<and> distance (sacc_sx sc) (sacc_sy sc) (sacc_ex sc) (sacc_ey sc) = Inr (sacc_size sc)
        \<and> sacc_st sc = l ! 2 \<and> sacc_et sc = l ! 3 \<and> sacc_duration sc = d"
    if "saccade_event fn l = Some sc"
    using that
    by (auto simp: saccade_event_def event_def Saccade_init_def Let_def
        split: if_splits sum.splits)
  have sdur: "num (sacc_duration sc) = Some (b - a)"
    if "saccade_event fn l = Some sc" "num (sacc_st sc) = Some a" "num (sacc_et sc) = Some b"
  proof -
    from sacc [OF that(1)] obtain d where "py_sub (l ! 3) (l ! 2) = Inr d"
      and "sacc_st sc = l ! 2" "sacc_et sc = l ! 3" "sacc_duration sc = d"
      by blast
    with that(2,3) show ?thesis
      using py_sub_num [of "l ! 3" b "l ! 2" a d] by simp
  qed
  have ssize: "num (sacc_size sc) = Some (sqrt ((x1 - x2)\<^sup>2 + (y1 - y2)\<^sup>2))"
    if "saccade_event fn l = Some sc" "num (sacc_sx sc) = Some x1" "num (sacc_sy sc) = Some y1"
      "num (sacc_ex sc) = Some x2" "num (sacc_ey sc) = Some y2"
  proof -
    from sacc [OF that(1)] have
      "distance (sacc_sx sc) (sacc_sy sc) (sacc_ex sc) (sacc_ey sc) = Inr (sacc_size sc)"
      by auto
    from distance_num [OF that(2-5) this] show ?thesis .
  qed
  have bl: "blink_st bl = l ! 2 \<and> blink_et bl = l ! 3 \<and> blink_duration bl = l ! 4"
    if "blink_event fn l = Some bl"
    using that
    by (auto simp: blink_event_def event_def Blink_init_def split: if_splits sum.splits)
  from fdur sdur ssize bl show ?thesis
    by blast
qed

theorem event_durations_witness:
  "\<exists>fx sc bl.
     fixation_event None
       [TText ''EFIX'', TText ''R'', TInt 1651574, TInt 1654007, TInt 2434,
        TFloat (Finite (6533 / 10)), TFloat (Finite (5578 / 10)), TInt 4710] = Some fx
   \<and> num (fix_duration fx) = Some (1654007 - 1651574)
   \<and> saccade_event None
       [TText ''ESACC'', TText ''R'', TInt 3216221, TInt 3216233, TInt 13,
        TFloat (Finite (5152 / 10)), TFloat (Finite (3816 / 10)), TFloat (Finite (5312 / 10)),
        TFloat (Finite (3907 / 10)), TFloat (Finite (51 / 100)), TInt 58] = Some sc
   \<and> num (sacc_duration sc) = Some (3216233 - 3216221)
   \<and> num (sacc_size sc)
       = Some (sqrt ((5152 / 10 - 5312 / 10)\<^sup>2 + (3816 / 10 - 3907 / 10)\<^sup>2))
   \<and> blink_event None [TText ''EBLINK'', TText ''R'', TInt 5294685, TInt 5294774, TInt 90]
       = Some bl
   \<and> blink_duration bl = TInt 90"
proof -
  let ?fl = "[TText ''EFIX'', TText ''R'', TInt 1651574, TInt 1654007, TInt 2434,
        TFloat (Finite (6533 / 10)), TFloat (Finite (5578 / 10)), TInt 4710]"
  let ?sl = "[TText ''ESACC'', TText ''R'', TInt 3216221, TInt 3216233, TInt 13,
        TFloat (Finite (5152 / 10)), TFloat (Finite (3816 / 10)), TFloat (Finite (5312 / 10)),
        TFloat (Finite (3907 / 10)), TFloat (Finite (51 / 100)), TInt 58]"
  let ?bl = "[TText ''EBLINK'', TText ''R'', TInt 5294685, TInt 5294774, TInt 90]"
  have "\<exists>fx. fixation_event None ?fl = Some fx
          \<and> num (fix_st fx) = Some 1651574 \<and> num (fix_et fx) = Some 1654007"
    by (simp add: fixation_event_def event_def Fixation_match_def Fixation_init_def
        assert_numeric_def)
  then obtain fx where fx: "fixation_event None ?fl = Some fx"
    "num (fix_st fx) = Some 1651574" "num (fix_et fx) = Some 1654007"
    by blast
  have "\<exists>sc. saccade_event None ?sl = Some sc
          \<and> num (sacc_st sc) = Some 3216221 \<and> num (sacc_et sc) = Some 3216233
          \<and> num (sacc_sx sc) = Some (5152 / 10) \<and> num (sacc_sy sc) = Some (3816 / 10)
          \<and> num (sacc_ex sc) = Some (5312 / 10) \<and> num (sacc_ey sc) = Some (3907 / 10)"
    by (simp add: saccade_event_def event_def Saccade_match_def Saccade_init_def
        assert_numeric_def distance_def)
  then obtain sc where sc: "saccade_event None ?sl = Some sc"
    "num (sacc_st sc) = Some 3216221" "num (sacc_et sc) = Some 3216233"
    "num (sacc_sx sc) = Some (5152 / 10)" "num (sacc_sy sc) = Some (3816 / 10)"
    "num (sacc_ex sc) = Some (5312 / 10)" "num (sacc_ey sc) = Some (3907 / 10)"
    by blast
  have "\<exists>bl. blink_event None ?bl = Some bl"
    by (simp add: blink_event_def event_def Blink_match_def Blink_init_def assert_numeric_def)
  then obtain bl where bl: "blink_event None ?bl = Some bl"
    by blast
  from event_durations [of None ?fl fx 1651574 1654007] fx
  have a: "num (fix_duration fx) = Some (1654007 - 1651574)"
    by blast
  from event_durations [of None ?sl _ 3216221 3216233 sc "5152 / 10" "3816 / 10" "5312 / 10"
      "3907 / 10"] sc
  have b: "num (sacc_duration sc) = Some (3216233 - 3216221)"
    "num (sacc_size sc)
       = Some (sqrt ((5152 / 10 - 5312 / 10)\<^sup>2 + (3816 / 10 - 3907 / 10)\<^sup>2))"
    by blast+
  from event_durations [of None ?bl _ _ _ _ _ _ _ _ bl] bl
  have c: "blink_duration bl = TInt 90"
    by simp
  from fx(1) sc(1) bl a b c show ?thesis
    by blast
qed

section \<open>Missing fields of a sample\<close>

lemma position_value:
  "position l i = Inr v \<Longrightarrow> v = (if py_eq (l ! i) (TText ''.'') then np_nan else l ! i)"
  by (auto simp: position_def item_def split: if_splits)

lemma pupil_value:
  "pupil l i = Inr v
   \<Longrightarrow> v = (if py_eq (l ! i) (TInt 0) \<or> py_eq (l ! i) (TText ''.'') then np_nan else l ! i)"
  by (auto simp: pupil_def item_def split: if_splits)

lemma eye_fields_value:
  assumes "eye_fields l i = Inr (vx, vy, vp)"
  shows "vx = (if py_eq (l ! i) (TText ''.'') then np_nan else l ! i)
       \<and> vy = (if py_eq (l ! (i + 1)) (TText ''.'') then np_nan else l ! (i + 1))
       \<and> vp = (if py_eq (l ! (i + 2)) (TInt 0) \<or> py_eq (l ! (i + 2)) (TText ''.'')
               then np_nan else l ! (i + 2))"
proof -
  from assms have "position l i = Inr vx" "position l (i + 1) = Inr vy"
    "pupil l (i + 2) = Inr vp"
    by (auto simp: eye_fields_def split: sum.splits)
  then show ?thesis
    using position_value pupil_value by blast
qed

text \<open>
  Claim C2, as stated, fails for the decoder the parser uses. The blink line
  \<open>661781 . . 0.0 ...\<close> has the shape of a sample, and \<open>to_sample\<close> rejects the whole
  line; and \<open>to_sample\<close> keeps a placeholder in the y field as the literal text.
\<close>

theorem to_sample_missing_counterexample:
  "Sample_match [TInt 661781, TText ''.'', TText ''.'', TFloat (Finite 0), TText ''...'']
   \<and> to_sample [TInt 661781, TText ''.'', TText ''.'', TFloat (Finite 0), TText ''...''] = None
   \<and> to_sample [TInt 661781, TFloat (Finite 168), TText ''.'', TFloat (Finite 2141), TText ''...'']
     = Some \<lparr>sample_time = TInt 661781, sample_x = TFloat (Finite 168),
              sample_y = TText ''.'', sample_pupil_size = TFloat (Finite 2141)\<rparr>"
  by (simp add: Sample_match_def to_sample_def)

text \<open>
  Claim C2, amended. For every tokenized line that \<open>sample\<close> of the event module
  decodes, with the eyes recorded being \<open>left\<close>, \<open>right\<close> or \<open>both\<close>, each position field
  it reads whose token is the single-dot placeholder, and each pupil-size field it reads
  that is zero or the placeholder, is recorded as the not-a-number sentinel, and every
  other field as its token; the fields of an eye that is not recorded are the sentinel.
  The parser's own \<open>to_sample\<close> instead rejects the whole line when the x token is text
  or the pupil-size token is zero or text.
\<close>

theorem sample_sentinel:
  assumes "sample_event fn l eyes_recorded = Some sm"
  shows "(eyes_recorded = ''left'' \<or> eyes_recorded = ''both'' \<longrightarrow>
            smp_lx sm = Some (if py_eq (l ! 1) (TText ''.'') then np_nan else l ! 1)
          \<and> smp_ly sm = Some (if py_eq (l ! 2) (TText ''.'') then np_nan else l ! 2)
          \<and> smp_lpupil_size sm
            = Some (if py_eq (l ! 3) (TInt 0) \<or> py_eq (l ! 3) (TText ''.'') then np_nan
                    else l ! 3))
       \<and> (eyes_recorded = ''right'' \<longrightarrow>
            smp_rx sm = Some (if py_eq (l ! 1) (TText ''.'') then np_nan else l ! 1)
          \<and> smp_ry sm = Some (if py_eq (l ! 2) (TText ''.'') then np_nan else l ! 2)
          \<and> smp_rpupil_size sm
            = Some (if py_eq (l ! 3) (TInt 0) \<or> py_eq (l ! 3) (TText ''.'') then np_nan
                    else l ! 3)
          \<and> smp_lx sm = Some np_nan \<and> smp_ly sm = Some np_nan
          \<and> smp_lpupil_size sm = Some np_nan)
       \<and> (eyes_recorded = ''both'' \<longrightarrow>
            smp_rx sm = Some (if py_eq (l ! 4) (TText ''.'') then np_nan else l ! 4)
          \<and> smp_ry sm = Some (if py_eq (l ! 5) (TText ''.'') then np_nan else l ! 5)
          \<and> smp_rpupil_size sm
            = Some (if py_eq (l ! 6) (TInt 0) \<or> py_eq (l ! 6) (TText ''.'') then np_nan
                    else l ! 6))
       \<and> (eyes_recorded = ''left'' \<longrightarrow>
            smp_rx sm = Some np_nan \<and> smp_ry sm = Some np_nan
          \<and> smp_rpupil_size sm = Some np_nan)
       \<and> (is_text (l ! 1) \<or> py_eq (l ! 3) (TInt 0) \<or> is_text (l ! 3) \<longrightarrow> to_sample l = None)"
proof -
  from assms have init: "Sample_init fn l eyes_recorded = Inr sm"
    by (auto simp: sample_event_def event_def split: if_splits sum.splits)
  have left: "smp_lx sm = Some (if py_eq (l ! 1) (TText ''.'') then np_nan else l ! 1)
          \<and> smp_ly sm = Some (if py_eq (l ! 2) (TText ''.'') then np_nan else l ! 2)
          \<and> smp_lpupil_size sm
            = Some (if py_eq (l ! 3) (TInt 0) \<or> py_eq (l ! 3) (TText ''.'') then np_nan
                    else l ! 3)"
    if "eyes_recorded = ''left'' \<or> eyes_recorded = ''both''"
  proof -
    from init that obtain vx vy vp where "eye_fields l 1 = Inr (vx, vy, vp)"
      and "smp_lx sm = Some vx" "smp_ly sm = Some vy" "smp_lpupil_size sm = Some vp"
      by (auto simp: Sample_init_def split: sum.splits if_splits)
    with eye_fields_value [of l 1 vx vy vp] show ?thesis
      by (simp add: eval_nat_numeral)
  qed
  have right: "smp_rx sm = Some (if py_eq (l ! 1) (TText ''.'') then np_nan else l ! 1)
          \<and> smp_ry sm = Some (if py_eq (l ! 2) (TText ''.'') then np_nan else l ! 2)
          \<and> smp_rpupil_size sm
            = Some (if py_eq (l ! 3) (TInt 0) \<or> py_eq (l ! 3) (TText ''.'') then np_nan
                    else l ! 3)
          \<and> smp_lx sm = Some np_nan \<and> smp_ly sm = Some np_nan
          \<and> smp_lpupil_size sm = Some np_nan"
    if "eyes_recorded = ''right''"
  proof -
    from init that obtain vx vy vp where "eye_fields l 1 = Inr (vx, vy, vp)"
      and "smp_rx sm = Some vx" "smp_ry sm = Some vy" "smp_rpupil_size sm = Some vp"
      and "smp_lx sm = Some np_nan" "smp_ly sm = Some np_nan" "smp_lpupil_size sm = Some np_nan"
      by (auto simp: Sample_init_def split: sum.splits if_splits)
    with eye_fields_value [of l 1 vx vy vp] show ?thesis
      by (simp add: eval_nat_numeral)
  qed
  have both: "smp_rx sm = Some (if py_eq (l ! 4) (TText ''.'') then np_nan else l ! 4)
          \<and> smp_ry sm = Some (if py_eq (l ! 5) (TText ''.'') then np_nan else l ! 5)
          \<and> smp_rpupil_size sm
            = Some (if py_eq (l ! 6) (TInt 0) \<or> py_eq (l ! 6) (TText ''.'') then np_nan
                    else l ! 6)"
    if "eyes_recorded = ''both''"
  proof -
    from init that obtain vx vy vp where "eye_fields l 4 = Inr (vx, vy, vp)"
      and "smp_rx sm = Some vx" "smp_ry sm = Some vy" "smp_rpupil_size sm = Some vp"
      by (auto simp: Sample_init_def split: sum.splits if_splits)
    with eye_fields_value [of l 4 vx vy vp] show ?thesis
      by (simp add: eval_nat_numeral)
  qed
  have lonly: "smp_rx sm = Some np_nan \<and> smp_ry sm = Some np_nan
      \<and> smp_rpupil_size sm = Some np_nan"
    if "eyes_recorded = ''left''"
    using init that by (auto simp: Sample_init_def split: sum.splits if_splits)
  have rej: "to_sample l = None" if "is_text (l ! 1) \<or> py_eq (l ! 3) (TInt 0) \<or> is_text (l ! 3)"
    using that by (auto simp: to_sample_def)
  from left right both lonly rej show ?thesis
    by blast
qed

theorem sample_sentinel_witness:
  "\<exists>sm. sample_event None [TInt 661781, TText ''.'', TText ''.'', TFloat (Finite 0), TText ''...'']
          ''right'' = Some sm
      \<and> smp_rx sm = Some np_nan \<and> smp_ry sm = Some np_nan \<and> smp_rpupil_size sm = Some np_nan
      \<and> to_sample [TInt 661781, TText ''.'', TText ''.'', TFloat (Finite 0), TText ''...''] = None"
proof -
  let ?l = "[TInt 661781, TText ''.'', TText ''.'', TFloat (Finite 0), TText ''...'']"
  have "\<exists>sm. sample_event None ?l ''right'' = Some sm"
    by (simp add: sample_event_def event_def Sample_match_def Sample_init_def assert_numeric_def
        eye_fields_def position_def pupil_def item_def)
  then obtain sm where sm: "sample_event None ?l ''right'' = Some sm"
    by blast
  from sample_sentinel [OF sm] have
    "smp_rx sm = Some np_nan \<and> smp_ry sm = Some np_nan \<and> smp_rpupil_size sm = Some np_nan
     \<and> to_sample ?l = None"
    by simp
  with sm show ?thesis
    by blast
qed

section \<open>Sample matching\<close>

text \<open>
  Claim C3. \<open>Sample.match\<close> holds exactly when the line has 5, 6, 8 or 9 tokens and token 0
  is not text. A line with another token count, or with a textual token 0, is reported as
  not a sample by both decoders: \<open>sample\<close> of the event module and \<open>to_sample\<close> of the
  parser return \<open>None\<close>. Whenever either decoder returns a sample, the token count is
  among 5, 6, 8, 9 and token 0 is not text.
\<close>

theorem sample_match_only:
  "Sample_match l = (length l \<in> {5, 6, 8, 9} \<and> \<not> is_text (l ! 0))
   \<and> (length l \<notin> {5, 6, 8, 9} \<or> is_text (l ! 0)
        \<longrightarrow> sample_event fn l eyes_recorded = None \<and> to_sample l = None)
   \<and> (sample_event fn l eyes_recorded \<noteq> None \<or> to_sample l \<noteq> None
        \<longrightarrow> length l \<in> {5, 6, 8, 9} \<and> \<not> is_text (l ! 0))"
proof -
  have m: "Sample_match l = (length l \<in> {5, 6, 8, 9} \<and> \<not> is_text (l ! 0))"
    by (simp add: Sample_match_def)
  have e: "sample_event fn l eyes_recorded = None" if "\<not> Sample_match l"
    using that by (simp add: sample_event_def event_def)
  have t: "to_sample l = None" if "\<not> Sample_match l"
    using that by (auto simp: to_sample_def Sample_match_def)
  show ?thesis
  proof (cases "Sample_match l")
    case True
    with m show ?thesis by simp
  next
    case False
    with m e t show ?thesis by simp
  qed
qed

theorem sample_match_only_witness:
  "sample_event None [TText ''MSG'', TInt 104, TText ''end_trial''] ''left'' = None
   \<and> to_sample [TText ''MSG'', TInt 104, TText ''end_trial''] = None
   \<and> sample_event None [TText ''EFIX'', TText ''R'', TInt 1, TInt 2, TInt 1] ''left'' = None
   \<and> to_sample [TText ''EFIX'', TText ''R'', TInt 1, TInt 2, TInt 1] = None"
  using sample_match_only [of "[TText ''MSG'', TInt 104, TText ''end_trial'']" None "''left''"]
    sample_match_only [of "[TText ''EFIX'', TText ''R'', TInt 1, TInt 2, TInt 1]" None "''left''"]
  by simp

end
